theory Spec2Isabelle
  imports Complex_Main "HOL-Library.Sublist"
begin

section \<open>Forecast chart of src/app/src/App.js: data model\<close>

text \<open>
  A JavaScript object that is enumerated (\<^verbatim>\<open>Object.entries\<close>, \<^verbatim>\<open>Object.keys\<close>) is an
  association list in the object's own enumeration order; its keys are distinct and a
  property read \<^verbatim>\<open>o[k]\<close> is \<open>map_of\<close>, with \<open>None\<close> for \<^verbatim>\<open>undefined\<close>.
  Timestamps are milliseconds since the epoch; \<open>None\<close> is the \<^verbatim>\<open>NaN\<close> time value of an
  invalid \<^verbatim>\<open>Date\<close>. Time values are integers below \<open>2^53\<close>, so the subtraction of
  3600000 is exact in the source too. The other numbers are exact rationals: the binary
  rounding of the source's doubles is not part of this development.
\<close>

datatype error = TypeError

type_synonym 'v jsobject = "(string \<times> 'v) list"

record 'st leadDay =
  fcasts :: "rat jsobject"
  errors :: "rat jsobject"
  stats :: 'st

record 'st analysis =
  obs :: "rat jsobject"
  lead_days :: "'st leadDay jsobject"
  cumulative_stats :: 'st

text \<open>
  The values the active day takes in the source: \<^verbatim>\<open>false\<close> (the "leave it alone" signal
  of \<^verbatim>\<open>onChange\<close>), \<^verbatim>\<open>null\<close> (the initial state), \<^verbatim>\<open>undefined\<close> (destructuring an empty
  array) and a lead-day key.
\<close>

datatype dayval = DFalse | DNull | DUndefined | DKey string

fun truthy :: "dayval \<Rightarrow> bool" where
  "truthy (DKey d) = (d \<noteq> [])"
| "truthy _ = False"

section \<open>Error areas (lines 161-196)\<close>

record erreaDatum =
  x :: "int option"
  y :: "rat option"
  y0 :: "rat option"
  amount :: rat

text \<open>\<^verbatim>\<open>a.valueOf() === b.valueOf() - 3600000\<close>; a \<^verbatim>\<open>NaN\<close> on either side compares unequal.\<close>

definition hourBefore :: "int option \<Rightarrow> int option \<Rightarrow> bool" where
  "hourBefore a b = (case a of None \<Rightarrow> False
                     | Some u \<Rightarrow> (case b of None \<Rightarrow> False | Some v \<Rightarrow> u = v - 3600000))"

text \<open>
  The reducer. \<open>parseDate\<close> is the time value of \<^verbatim>\<open>new Date(timeStr)\<close>, a parameter.
  \<^verbatim>\<open>lastErrea.slice(-1)[0].x\<close> raises on an empty last area; \<^verbatim>\<open>lastErrea.push\<close>
  changes the last area in place.
\<close>

definition erreaStep ::
  "(string \<Rightarrow> int option) \<Rightarrow> rat jsobject \<Rightarrow> rat jsobject \<Rightarrow>
   erreaDatum list list \<Rightarrow> string \<times> rat \<Rightarrow> error + erreaDatum list list" where
  "erreaStep parseDate fc ob erreas e =
     (let time = parseDate (fst e);
          erreaDatum = \<lparr>x = time, y = map_of fc (fst e), y0 = map_of ob (fst e),
                        amount = snd e\<rparr>
      in if erreas = [] then Inr [[erreaDatum]]
         else (let lastErrea = last erreas
               in if lastErrea = [] then Inl TypeError
                  else if hourBefore (x (last lastErrea)) time
                       then Inr (butlast erreas @ [lastErrea @ [erreaDatum]])
                       else Inr (erreas @ [[erreaDatum]])))"

fun reduce :: "('a \<Rightarrow> 'b \<Rightarrow> error + 'a) \<Rightarrow> 'a \<Rightarrow> 'b list \<Rightarrow> error + 'a" where
  "reduce f acc [] = Inr acc"
| "reduce f acc (e # es) = (case f acc e of Inl err \<Rightarrow> Inl err | Inr acc' \<Rightarrow> reduce f acc' es)"

definition erreasOf ::
  "(string \<Rightarrow> int option) \<Rightarrow> rat jsobject \<Rightarrow> rat jsobject \<Rightarrow> rat jsobject \<Rightarrow>
   error + erreaDatum list list" where
  "erreasOf parseDate fc ob errs = reduce (erreaStep parseDate fc ob) [] errs"

text \<open>Decimal digits of a natural number, as in a template string.\<close>

fun showNat :: "nat \<Rightarrow> string" where
  "showNat n = (if n < 10 then [char_of (48 + n)]
                else showNat (n div 10) @ [char_of (48 + n mod 10)])"

declare showNat.simps [simp del]

text \<open>
  The children of the \<^verbatim>\<open>Error\<close> group: none unless a day is active; otherwise one named
  area per contiguous run. Reading \<^verbatim>\<open>.errors\<close> of a missing lead day raises.
\<close>

definition displayedErrea ::
  "(string \<Rightarrow> int option) \<Rightarrow> 'st analysis \<Rightarrow> dayval \<Rightarrow>
   error + (string \<times> erreaDatum list) list" where
  "displayedErrea parseDate an activeDay =
     (case activeDay of
        DKey d \<Rightarrow>
          (if d = [] then Inr []
           else (case map_of (lead_days an) d of
                   None \<Rightarrow> Inl TypeError
                 | Some ld \<Rightarrow>
                     (case erreasOf parseDate (fcasts ld) (obs an) (errors ld) of
                        Inl err \<Rightarrow> Inl err
                      | Inr erreas \<Rightarrow>
                          Inr (map (\<lambda>(i, errea). (''Error-Area-'' @ showNat i, errea))
                                   (enumerate 0 erreas)))))
      | _ \<Rightarrow> Inr [])"

text \<open>The point that the reducer builds for one entry.\<close>

definition datumOf ::
  "(string \<Rightarrow> int option) \<Rightarrow> rat jsobject \<Rightarrow> rat jsobject \<Rightarrow> string \<times> rat \<Rightarrow> erreaDatum" where
  "datumOf parseDate fc ob e =
     \<lparr>x = parseDate (fst e), y = map_of fc (fst e), y0 = map_of ob (fst e), amount = snd e\<rparr>"

text \<open>Number of adjacent positions of a time sequence that are not one hour apart.\<close>

fun gapCount :: "int option list \<Rightarrow> nat" where
  "gapCount (a # b # ts) = (if hourBefore a b then 0 else 1) + gapCount (b # ts)"
| "gapCount _ = 0"

text \<open>Every adjacent pair of a time sequence is exactly one hour apart.\<close>

fun hourly :: "int option list \<Rightarrow> bool" where
  "hourly (a # b # ts) = (hourBefore a b \<and> hourly (b # ts))"
| "hourly _ = True"

text \<open>Strictly earlier, for two valid time values.\<close>

definition earlier :: "int option \<Rightarrow> int option \<Rightarrow> bool" where
  "earlier a b = (case a of None \<Rightarrow> False
                  | Some u \<Rightarrow> (case b of None \<Rightarrow> False | Some v \<Rightarrow> u < v))"

text \<open>
  The areas grown from the finished areas \<open>rs\<close> and the open area \<open>r\<close> by the points
  \<open>ds\<close>: what the reducer has built once it holds \<open>rs @ [r]\<close> and reads \<open>ds\<close>.
\<close>

fun growAreas ::
  "erreaDatum list list \<Rightarrow> erreaDatum list \<Rightarrow> erreaDatum list \<Rightarrow> erreaDatum list list" where
  "growAreas rs r [] = rs @ [r]"
| "growAreas rs r (d # ds) =
     (if hourBefore (x (last r)) (x d) then growAreas rs (r @ [d]) ds
      else growAreas (rs @ [r]) [d] ds)"

section \<open>Legend clicks and chart state (lines 111-112, 241-257, 277, 388-402)\<close>

text \<open>\<^verbatim>\<open>s.includes(sub)\<close> and the first element of \<^verbatim>\<open>s.split(sep)\<close>, for a non-empty \<open>sep\<close>.\<close>

fun str_includes :: "string \<Rightarrow> string \<Rightarrow> bool" where
  "str_includes [] sub = (sub = [])"
| "str_includes (c # cs) sub = (prefix sub (c # cs) \<or> str_includes cs sub)"

fun splitHead :: "string \<Rightarrow> string \<Rightarrow> string" where
  "splitHead [] sep = []"
| "splitHead (c # cs) sep = (if prefix sep (c # cs) then [] else c # splitHead cs sep)"

definition activeFcasts :: "'st analysis \<Rightarrow> dayval \<Rightarrow> string list" where
  "activeFcasts an activeDay =
     (case activeDay of
        DKey d \<Rightarrow> (if d \<noteq> [] then [d] else map fst (lead_days an))
      | _ \<Rightarrow> map fst (lead_days an))"

text \<open>The new active day that \<^verbatim>\<open>toggleDisplayed\<close> hands to \<^verbatim>\<open>onChange\<close>.\<close>

definition toggleDisplayed :: "'st analysis \<Rightarrow> dayval \<Rightarrow> string \<Rightarrow> dayval" where
  "toggleDisplayed an activeDay labelName =
     (let allFcastDays = map fst (lead_days an);
          day = splitHead labelName ''-Day''
      in if \<not> truthy activeDay then
           (if str_includes labelName ''Error'' then
              (case activeFcasts an activeDay of [] \<Rightarrow> DUndefined | k # _ \<Rightarrow> DKey k)
            else if day \<in> set allFcastDays then DKey day
            else DFalse)
         else if labelName = ''Actual'' \<or> day \<in> set (activeFcasts an activeDay) then DNull
         else if day \<in> set allFcastDays then DKey day
         else DFalse)"

record 'p chartState =
  activeFcastDay :: dayval
  activeData :: "'p list"

definition initialState :: "'p chartState" where
  "initialState = \<lparr>activeFcastDay = DNull, activeData = []\<rparr>"

text \<open>The second argument is \<open>None\<close> for a falsy \<^verbatim>\<open>newActiveData\<close>; an array is always truthy.\<close>

definition handleChange :: "'p chartState \<Rightarrow> dayval \<Rightarrow> 'p list option \<Rightarrow> 'p chartState" where
  "handleChange st newActiveDay newActiveData =
     (let st1 = (if newActiveDay \<noteq> DFalse then st\<lparr>activeFcastDay := newActiveDay\<rparr> else st)
      in case newActiveData of None \<Rightarrow> st1 | Some ps \<Rightarrow> st1\<lparr>activeData := ps\<rparr>)"

definition legendClick :: "'st analysis \<Rightarrow> 'p chartState \<Rightarrow> string \<Rightarrow> 'p chartState" where
  "legendClick an st labelName =
     handleChange st (toggleDisplayed an (activeFcastDay st) labelName) (Some [])"

definition onActivated :: "'p chartState \<Rightarrow> 'p list \<Rightarrow> 'p chartState" where
  "onActivated st points = handleChange st DFalse (Some points)"

text \<open>The names of the legend entries (\<^verbatim>\<open>legendData\<close>, lines 199-239).\<close>

definition legendNames :: "'st analysis \<Rightarrow> string list" where
  "legendNames an =
     map (\<lambda>day. day @ ''-Day'') (map fst (lead_days an)) @ [''Actual'', ''Error'']"

text \<open>A lead-day key that counts days: a non-empty string of decimal digits.\<close>

definition dayCount :: "string \<Rightarrow> bool" where
  "dayCount d =
     (d \<noteq> [] \<and> list_all (\<lambda>c. 48 \<le> (of_char c :: nat) \<and> (of_char c :: nat) \<le> 57) d)"

section \<open>Statistics shown (lines 337-339)\<close>

definition ErrorStatsDisplay_stats :: "'st analysis \<Rightarrow> dayval \<Rightarrow> error + 'st" where
  "ErrorStatsDisplay_stats an activeDay =
     (if \<not> truthy activeDay then Inr (cumulative_stats an)
      else (case activeDay of
              DKey d \<Rightarrow> (case map_of (lead_days an) d of
                           None \<Rightarrow> Inl TypeError
                         | Some ld \<Rightarrow> Inr (stats ld))
            | _ \<Rightarrow> Inr (cumulative_stats an)))"

section \<open>Labelled values (lines 423-436, 491-509)\<close>

text \<open>
  Strings are sequences of 8-bit characters (ASCII and Latin-1). A displayed value is
  \<^verbatim>\<open>null\<close>, \<^verbatim>\<open>undefined\<close> or a number; in arithmetic \<^verbatim>\<open>null\<close> is 0 and \<^verbatim>\<open>undefined\<close>
  is \<^verbatim>\<open>NaN\<close> (\<open>None\<close>).
\<close>

datatype jsnum = Null | Undefined | Num rat

fun toNumber :: "jsnum \<Rightarrow> rat option" where
  "toNumber Null = Some 0"
| "toNumber Undefined = None"
| "toNumber (Num r) = Some r"

definition toLowerCase_char :: "char \<Rightarrow> char" where
  "toLowerCase_char c =
     (let n = (of_char c :: nat)
      in if (65 \<le> n \<and> n \<le> 90) \<or> (192 \<le> n \<and> n \<le> 222 \<and> n \<noteq> 215) then char_of (n + 32) else c)"

definition toUpperCase_char :: "char \<Rightarrow> char" where
  "toUpperCase_char c =
     (let n = (of_char c :: nat)
      in if 97 \<le> n \<and> n \<le> 122 then char_of (n - 32) else c)"

definition toLowerCase :: "string \<Rightarrow> string" where
  "toLowerCase s = map toLowerCase_char s"

text \<open>Used on regular-expression matches only, which hold no letter outside ASCII.\<close>

definition toUpperCase :: "string \<Rightarrow> string" where
  "toUpperCase s = map toUpperCase_char s"

text \<open>The classes \<^verbatim>\<open>\w\<close> and \<^verbatim>\<open>\s\<close>, and the alternatives \<^verbatim>\<open>\(|"|\s|-|,\<close>.\<close>

definition isWord :: "char \<Rightarrow> bool" where
  "isWord c =
     (let n = (of_char c :: nat)
      in (48 \<le> n \<and> n \<le> 57) \<or> (65 \<le> n \<and> n \<le> 90) \<or> n = 95 \<or> (97 \<le> n \<and> n \<le> 122))"

definition isSpace :: "char \<Rightarrow> bool" where
  "isSpace c = (let n = (of_char c :: nat) in (9 \<le> n \<and> n \<le> 13) \<or> n = 32 \<or> n = 160)"

definition isBoundary :: "char \<Rightarrow> bool" where
  "isBoundary c = (c = CHR ''('' \<or> c = CHR 0x22 \<or> isSpace c \<or> c = CHR ''-'' \<or> c = CHR '','')"

text \<open>\<^verbatim>\<open>str.replace(/_/, ' ')\<close>: the first underscore only.\<close>

fun replaceUnderscore :: "string \<Rightarrow> string" where
  "replaceUnderscore [] = []"
| "replaceUnderscore (c # cs) = (if c = CHR ''_'' then CHR '' '' # cs else c # replaceUnderscore cs)"

text \<open>
  The global replacement over \<^verbatim>\<open>/(?:(^|\(|"|\s|-|,)\w)\w+/g\<close>: a match that is its own
  upper case is lowered. The flag says whether the position is the start of the string.
\<close>

function lowerShouted :: "bool \<Rightarrow> string \<Rightarrow> string" where
  "lowerShouted atStart [] = []"
| "lowerShouted atStart (c # cs) =
     (if atStart \<and> isWord c \<and> takeWhile isWord cs \<noteq> [] then
        (let m = c # takeWhile isWord cs
         in (if m = toUpperCase m then toLowerCase m else m)
            @ lowerShouted False (dropWhile isWord cs))
      else (case cs of
              w # ws \<Rightarrow>
                (if isBoundary c \<and> isWord w \<and> takeWhile isWord ws \<noteq> [] then
                   (let m = c # w # takeWhile isWord ws
                    in (if m = toUpperCase m then toLowerCase m else m)
                       @ lowerShouted False (dropWhile isWord ws))
                 else c # lowerShouted False cs)
            | [] \<Rightarrow> c # lowerShouted False cs))"
  by pat_completeness auto
termination
proof (relation "measure (\<lambda>(b, s). length s)")
  show "wf (measure (\<lambda>(b, s). length s))" by simp
next
  fix atStart :: bool and c :: char and cs :: string
  show "((False, dropWhile isWord cs), (atStart, c # cs)) \<in> measure (\<lambda>(b, s). length s)"
    using length_dropWhile_le [of isWord cs] by simp
next
  fix atStart :: bool and c :: char and cs :: string and w :: char and ws :: string
  assume "cs = w # ws"
  then show "((False, dropWhile isWord ws), (atStart, c # cs)) \<in> measure (\<lambda>(b, s). length s)"
    using length_dropWhile_le [of isWord ws] by simp
next
  fix atStart :: bool and c :: char and cs :: string
  show "((False, cs), (atStart, c # cs)) \<in> measure (\<lambda>(b, s). length s)" by simp
next
  fix atStart :: bool and c :: char and cs :: string
  show "((False, cs), (atStart, c # cs)) \<in> measure (\<lambda>(b, s). length s)" by simp
qed

text \<open>The global replacement over \<^verbatim>\<open>/(?:^|\(|"|\s|-|,)\w/g\<close>: every match is raised.\<close>

fun raiseInitials :: "bool \<Rightarrow> string \<Rightarrow> string" where
  "raiseInitials atStart [] = []"
| "raiseInitials atStart [c] = (if atStart \<and> isWord c then [toUpperCase_char c] else [c])"
| "raiseInitials atStart (c # w # ws) =
     (if atStart \<and> isWord c then toUpperCase_char c # raiseInitials False (w # ws)
      else if isBoundary c \<and> isWord w
           then toUpperCase_char c # toUpperCase_char w # raiseInitials False ws
           else c # raiseInitials False (w # ws))"

definition toTitleCase :: "string \<Rightarrow> string" where
  "toTitleCase str = raiseInitials True (lowerShouted True (replaceUnderscore str))"

text \<open>
  \<^verbatim>\<open>Math.round\<close> rounds a half upwards. \<open>showTenths n\<close> is the text of the number
  \<open>n / 10\<close> in a template string, for magnitudes below \<open>10^21\<close> (no exponent).
\<close>

definition Math_round :: "rat \<Rightarrow> int" where
  "Math_round v = \<lfloor>v + 1 / 2\<rfloor>"

definition showTenths :: "int \<Rightarrow> string" where
  "showTenths n =
     (if n < 0 then ''-'' else []) @ showNat (nat \<bar>n\<bar> div 10)
     @ (if nat \<bar>n\<bar> mod 10 = 0 then [] else ''.'' @ showNat (nat \<bar>n\<bar> mod 10))"

definition formatForDisplay :: "rat option \<Rightarrow> string \<Rightarrow> string" where
  "formatForDisplay val units =
     (case val of None \<Rightarrow> ''NaN'' | Some v \<Rightarrow> showTenths (Math_round (v * 10))) @ units"

record labeledValue =
  label :: string
  "value" :: jsnum
  valueType :: "string option"
  className :: "string option"

text \<open>\<^verbatim>\<open>type || label\<close>: an absent or empty \<^verbatim>\<open>type\<close> gives the label.\<close>

definition typeOrLabel :: "labeledValue \<Rightarrow> string" where
  "typeOrLabel lv = (case valueType lv of None \<Rightarrow> label lv
                     | Some t \<Rightarrow> (if t = [] then label lv else t))"

definition formattedValue :: "labeledValue \<Rightarrow> string" where
  "formattedValue lv =
     (if toLowerCase (typeOrLabel lv) = ''accuracy''
      then formatForDisplay (map_option (\<lambda>v. v * 100) (toNumber (value lv))) ''%''
      else formatForDisplay (toNumber (value lv)) [CHR 0xB0, CHR ''C''])"

text \<open>The two texts that \<^verbatim>\<open>LabeledValue\<close> renders: the label and the value.\<close>

definition LabeledValue :: "labeledValue \<Rightarrow> string \<times> string" where
  "LabeledValue lv = (toTitleCase (label lv), formattedValue lv)"

section \<open>Hover points (lines 440-489)\<close>

record hoverPoint =
  childName :: string
  datum_y :: jsnum
  datum_amount :: jsnum

text \<open>
  One round of the \<^verbatim>\<open>forEach\<close>: the state is \<^verbatim>\<open>formattedData\<close> and
  \<^verbatim>\<open>formattedErrorDatum\<close> (\<open>None\<close> while undefined).
\<close>

definition activeStep ::
  "labeledValue list \<times> labeledValue option \<Rightarrow> hoverPoint \<Rightarrow>
   labeledValue list \<times> labeledValue option" where
  "activeStep st datum =
     (if datum_y datum = Null then st
      else if \<not> str_includes (childName datum) ''Error'' then
        (fst st @ [\<lparr>label = childName datum, value = datum_y datum,
                     valueType = None, className = None\<rparr>], snd st)
      else
        (fst st, Some \<lparr>label = ''Forecast Error'', value = datum_amount datum,
                        valueType = None, className = Some ''text-danger''\<rparr>))"

text \<open>
  The labelled values of the panel, in order; \<open>None\<close> when nothing is rendered. The
  date header is left out.
\<close>

definition ActiveDataDisplay :: "hoverPoint list \<Rightarrow> labeledValue list option" where
  "ActiveDataDisplay data =
     (if data = [] then None
      else (let st = foldl activeStep ([], None) data
            in Some (case snd st of None \<Rightarrow> fst st | Some e \<Rightarrow> fst st @ [e])))"

section \<open>Sample data\<close>

text \<open>Time values of four timestamps of 1 May 2019 (UTC), as \<^verbatim>\<open>new Date\<close> gives them.\<close>

definition sampleDates :: "string \<Rightarrow> int option" where
  "sampleDates = map_of
     [(''2019-05-01T00:00:00Z'', 1556668800000),
      (''2019-05-01T01:00:00Z'', 1556672400000),
      (''2019-05-01T02:00:00Z'', 1556676000000),
      (''2019-05-01T04:00:00Z'', 1556683200000)]"

definition sampleAnalysis :: "string analysis" where
  "sampleAnalysis =
     \<lparr>obs = [], 
      lead_days =
        [(''1'', \<lparr>fcasts = [], errors = [], stats = ''stats of 1''\<rparr>),
         (''2'', \<lparr>fcasts = [], errors = [], stats = ''stats of 2''\<rparr>),
         (''3'', \<lparr>fcasts = [], errors = [], stats = ''stats of 3''\<rparr>)],
      cumulative_stats = ''cumulative''\<rparr>"

section \<open>The reducer builds maximal hourly runs\<close>

lemma erreaStep_Nil: "erreaStep p fc ob [] e = Inr [[datumOf p fc ob e]]"
  by (simp add: erreaStep_def datumOf_def)

lemma erreaStep_snoc:
  "r \<noteq> [] \<Longrightarrow> erreaStep p fc ob (rs @ [r]) e =
     (if hourBefore (x (last r)) (x (datumOf p fc ob e))
      then Inr (rs @ [r @ [datumOf p fc ob e]])
      else Inr ((rs @ [r]) @ [[datumOf p fc ob e]]))"
  by (simp add: erreaStep_def datumOf_def Let_def)

lemma reduce_growAreas:
  "r \<noteq> [] \<Longrightarrow>
   reduce (erreaStep p fc ob) (rs @ [r]) es = Inr (growAreas rs r (map (datumOf p fc ob) es))"
proof (induction es arbitrary: rs r)
  case Nil
  then show ?case by simp
next
  case (Cons e es)
  show ?case
  proof (cases "hourBefore (x (last r)) (x (datumOf p fc ob e))")
    case True
    have "reduce (erreaStep p fc ob) (rs @ [r]) (e # es)
          = reduce (erreaStep p fc ob) (rs @ [r @ [datumOf p fc ob e]]) es"
      using Cons.prems True by (simp add: erreaStep_snoc)
    also have "\<dots> = Inr (growAreas rs (r @ [datumOf p fc ob e]) (map (datumOf p fc ob) es))"
      by (rule Cons.IH) simp
    finally show ?thesis using True by simp
  next
    case False
    have "reduce (erreaStep p fc ob) (rs @ [r]) (e # es)
          = reduce (erreaStep p fc ob) ((rs @ [r]) @ [[datumOf p fc ob e]]) es"
      using Cons.prems False by (simp add: erreaStep_snoc)
    also have "\<dots> = Inr (growAreas (rs @ [r]) [datumOf p fc ob e] (map (datumOf p fc ob) es))"
      by (rule Cons.IH) simp
    finally show ?thesis using False by simp
  qed
qed

lemma erreasOf_Nil: "erreasOf p fc ob [] = Inr []"
  by (simp add: erreasOf_def)

lemma erreasOf_Cons:
  "erreasOf p fc ob (e # es) = Inr (growAreas [] [datumOf p fc ob e] (map (datumOf p fc ob) es))"
  using reduce_growAreas [of "[datumOf p fc ob e]" p fc ob "[]" es]
  by (simp add: erreasOf_def erreaStep_Nil)

lemma length_growAreas:
  "r \<noteq> [] \<Longrightarrow> length (growAreas rs r ds) = length rs + 1 + gapCount (x (last r) # map x ds)"
  by (induction ds arbitrary: rs r) auto

lemma concat_growAreas: "concat (growAreas rs r ds) = concat rs @ r @ ds"
  by (induction ds arbitrary: rs r) auto

lemma hourly_append1:
  "ts \<noteq> [] \<Longrightarrow> hourly ts \<Longrightarrow> hourBefore (last ts) t \<Longrightarrow> hourly (ts @ [t])"
  by (induction ts rule: hourly.induct) auto

lemma hourly_snoc:
  "r \<noteq> [] \<Longrightarrow> hourly (map x r) \<Longrightarrow> hourBefore (x (last r)) (x d) \<Longrightarrow>
   hourly (map x (r @ [d]))"
  using hourly_append1 [of "map x r" "x d"] by (simp add: last_map)

lemma regions_growAreas:
  "r \<noteq> [] \<Longrightarrow> hourly (map x r) \<Longrightarrow> \<forall>q\<in>set rs. q \<noteq> [] \<and> hourly (map x q) \<Longrightarrow>
   \<forall>q\<in>set (growAreas rs r ds). q \<noteq> [] \<and> hourly (map x q)"
proof (induction ds arbitrary: rs r)
  case Nil
  then show ?case by simp
next
  case (Cons d ds)
  show ?case
  proof (cases "hourBefore (x (last r)) (x d)")
    case True
    with Cons.prems have "hourly (map x (r @ [d]))" by (intro hourly_snoc) simp_all
    with Cons.IH [of "r @ [d]" rs] Cons.prems True show ?thesis by simp
  next
    case False
    with Cons.IH [of "[d]" "rs @ [r]"] Cons.prems show ?thesis by simp
  qed
qed

lemma earlier_trans: "earlier a b \<Longrightarrow> earlier b c \<Longrightarrow> earlier a c"
  by (auto simp: earlier_def split: option.splits)

lemma hourBefore_earlier: "hourBefore a b \<Longrightarrow> earlier a b"
  by (auto simp: earlier_def hourBefore_def split: option.splits)

lemma hourly_increasing: "hourly ts \<Longrightarrow> sorted_wrt earlier ts"
proof (induction ts rule: hourly.induct)
  case (1 a b ts)
  then have ab: "earlier a b" and srt: "sorted_wrt earlier (b # ts)"
    by (simp_all add: hourBefore_earlier)
  have "\<forall>c\<in>set ts. earlier a c"
    using ab srt by (auto intro: earlier_trans)
  with ab srt show ?case by simp
qed simp_all

lemma gapCount_hourly: "hourly ts \<Longrightarrow> gapCount ts = 0"
  by (induction ts rule: hourly.induct) auto

lemma x_datumOf: "x (datumOf p fc ob e) = p (fst e)"
  by (simp add: datumOf_def)

lemma erreasOf_length:
  "errs \<noteq> [] \<Longrightarrow>
   \<exists>rs. erreasOf p fc ob errs = Inr rs \<and> length rs = gapCount (map (p \<circ> fst) errs) + 1"
proof (cases errs)
  case Nil
  assume "errs \<noteq> []"
  with Nil show ?thesis by simp
next
  case (Cons e es)
  have xd: "x \<circ> datumOf p fc ob = p \<circ> fst"
    by (simp add: fun_eq_iff x_datumOf)
  have "length (growAreas [] [datumOf p fc ob e] (map (datumOf p fc ob) es))
        = gapCount (p (fst e) # map (p \<circ> fst) es) + 1"
    using length_growAreas [of "[datumOf p fc ob e]" "[]" "map (datumOf p fc ob) es"]
    by (simp add: x_datumOf xd)
  then show ?thesis
    using Cons by (simp add: erreasOf_Cons)
qed

text \<open>With an active lead day of the payload, the areas charted are those of the reducer.\<close>

lemma displayedErrea_areas:
  assumes "d \<noteq> []" and "map_of (lead_days an) d = Some ld"
    and "erreasOf p (fcasts ld) (obs an) (errors ld) = Inr rs"
  shows "map_sum id (map snd) (displayedErrea p an (DKey d)) = Inr rs"
proof -
  have "map snd (map (\<lambda>(i, errea). (''Error-Area-'' @ showNat i, errea)) (enumerate 0 rs)) = rs"
    by (simp add: case_prod_unfold comp_def)
  with assms show ?thesis by (simp add: displayedErrea_def)
qed

text \<open>
  C1, as the code has it. The entries are read in the order in which the errors object
  enumerates them (they are not sorted). An empty object gives no area; a non-empty one
  gives one area more than there are adjacent entries, in that order, whose times are
  not exactly one hour apart; so entries that are all one hour apart give one area.
\<close>

theorem erreas_count:
  "erreasOf p fc ob [] = Inr [] \<and>
   (errs \<noteq> [] \<longrightarrow>
      (\<exists>rs. erreasOf p fc ob errs = Inr rs \<and>
            length rs = gapCount (map (p \<circ> fst) errs) + 1)) \<and>
   (errs \<noteq> [] \<and> hourly (map (p \<circ> fst) errs) \<longrightarrow>
      (\<exists>rs. erreasOf p fc ob errs = Inr rs \<and> length rs = 1))"
proof (intro conjI impI)
  show "erreasOf p fc ob [] = Inr []" by (rule erreasOf_Nil)
next
  assume "errs \<noteq> []"
  then show "\<exists>rs. erreasOf p fc ob errs = Inr rs \<and>
                  length rs = gapCount (map (p \<circ> fst) errs) + 1"
    by (rule erreasOf_length)
next
  assume a: "errs \<noteq> [] \<and> hourly (map (p \<circ> fst) errs)"
  then have "gapCount (map (p \<circ> fst) errs) = 0" by (simp add: gapCount_hourly)
  with erreasOf_length [of errs p fc ob] a
  show "\<exists>rs. erreasOf p fc ob errs = Inr rs \<and> length rs = 1" by simp
qed

theorem erreas_count_witness:
  "[(''2019-05-01T00:00:00Z'', 1), (''2019-05-01T01:00:00Z'', -2),
    (''2019-05-01T04:00:00Z'', 3 :: rat)] \<noteq> [] \<and>
   (\<exists>rs. erreasOf sampleDates [] []
            [(''2019-05-01T00:00:00Z'', 1), (''2019-05-01T01:00:00Z'', -2),
             (''2019-05-01T04:00:00Z'', 3)] = Inr rs \<and> length rs = 2) \<and>
   hourly (map (sampleDates \<circ> fst)
            [(''2019-05-01T00:00:00Z'', 1), (''2019-05-01T01:00:00Z'', -2 :: rat)]) \<and>
   (\<exists>rs. erreasOf sampleDates [] []
            [(''2019-05-01T00:00:00Z'', 1), (''2019-05-01T01:00:00Z'', -2)] = Inr rs \<and>
         length rs = 1)"
  using erreas_count [of sampleDates "[]" "[]"
          "[(''2019-05-01T00:00:00Z'', 1), (''2019-05-01T01:00:00Z'', -2),
            (''2019-05-01T04:00:00Z'', 3)]"]
        erreas_count [of sampleDates "[]" "[]"
          "[(''2019-05-01T00:00:00Z'', 1), (''2019-05-01T01:00:00Z'', -2)]"]
  by (auto simp add: sampleDates_def hourBefore_def)

text \<open>
  C1 as stated fails: these two entries are one hour apart when taken in ascending order
  of time, but the object enumerates the later one first and the code builds two areas.
\<close>

theorem erreas_count_counterexample:
  "hourly (map Some (sort (map (the \<circ> sampleDates \<circ> fst)
      [(''2019-05-01T01:00:00Z'', 1 :: rat), (''2019-05-01T00:00:00Z'', 2)]))) \<and>
   erreasOf sampleDates [] []
      [(''2019-05-01T01:00:00Z'', 1), (''2019-05-01T00:00:00Z'', 2)]
   = Inr [[\<lparr>x = Some 1556672400000, y = None, y0 = None, amount = 1\<rparr>],
          [\<lparr>x = Some 1556668800000, y = None, y0 = None, amount = 2\<rparr>]]"
  by (simp add: sampleDates_def hourBefore_def erreasOf_def erreaStep_def)

text \<open>
  C2, as the code has it. The areas, one after the other, hold the points of the entries
  in the order in which the errors object enumerates them; no area is empty; in every
  area adjacent points are exactly 3600000 ms apart, so its times strictly increase.
\<close>

theorem erreas_regions:
  "\<exists>rs. erreasOf p fc ob errs = Inr rs \<and>
        concat rs = map (datumOf p fc ob) errs \<and>
        (\<forall>r\<in>set rs. r \<noteq> [] \<and> hourly (map x r) \<and> sorted_wrt earlier (map x r))"
proof (cases errs)
  case Nil
  then show ?thesis by (simp add: erreasOf_Nil)
next
  case (Cons e es)
  let ?rs = "growAreas [] [datumOf p fc ob e] (map (datumOf p fc ob) es)"
  have reg: "\<forall>q\<in>set ?rs. q \<noteq> [] \<and> hourly (map x q)"
    by (rule regions_growAreas) simp_all
  then have "\<forall>q\<in>set ?rs. q \<noteq> [] \<and> hourly (map x q) \<and> sorted_wrt earlier (map x q)"
    by (simp add: hourly_increasing)
  moreover have "concat ?rs = map (datumOf p fc ob) (e # es)"
    by (simp add: concat_growAreas)
  ultimately show ?thesis using Cons by (simp add: erreasOf_Cons)
qed

theorem erreas_regions_witness:
  "erreasOf sampleDates [] []
     [(''2019-05-01T00:00:00Z'', 1), (''2019-05-01T01:00:00Z'', -2),
      (''2019-05-01T04:00:00Z'', 3)]
   = Inr [[\<lparr>x = Some 1556668800000, y = None, y0 = None, amount = 1\<rparr>,
           \<lparr>x = Some 1556672400000, y = None, y0 = None, amount = -2\<rparr>],
          [\<lparr>x = Some 1556683200000, y = None, y0 = None, amount = 3\<rparr>]] \<and>
   hourly (map x [\<lparr>x = Some 1556668800000, y = None, y0 = None, amount = 1\<rparr>,
                  \<lparr>x = Some 1556672400000, y = None, y0 = None, amount = -2\<rparr>]) \<and>
   sorted_wrt earlier (map x [\<lparr>x = Some 1556668800000, y = None, y0 = None, amount = 1\<rparr>,
                  \<lparr>x = Some 1556672400000, y = None, y0 = None, amount = -2\<rparr>])"
proof -
  have ev: "erreasOf sampleDates [] []
     [(''2019-05-01T00:00:00Z'', 1), (''2019-05-01T01:00:00Z'', -2),
      (''2019-05-01T04:00:00Z'', 3)]
   = Inr [[\<lparr>x = Some 1556668800000, y = None, y0 = None, amount = 1\<rparr>,
           \<lparr>x = Some 1556672400000, y = None, y0 = None, amount = -2\<rparr>],
          [\<lparr>x = Some 1556683200000, y = None, y0 = None, amount = 3\<rparr>]]"
    by (simp add: sampleDates_def hourBefore_def erreasOf_Cons datumOf_def)
  from erreas_regions [of sampleDates "[]" "[]"
          "[(''2019-05-01T00:00:00Z'', 1), (''2019-05-01T01:00:00Z'', -2),
            (''2019-05-01T04:00:00Z'', 3)]"]
  obtain rs where
    1: "erreasOf sampleDates [] []
          [(''2019-05-01T00:00:00Z'', 1), (''2019-05-01T01:00:00Z'', -2),
           (''2019-05-01T04:00:00Z'', 3)] = Inr rs"
    and 2: "\<forall>r\<in>set rs. r \<noteq> [] \<and> hourly (map x r) \<and> sorted_wrt earlier (map x r)"
    by blast
  from 1 have rs: "rs = [[\<lparr>x = Some 1556668800000, y = None, y0 = None, amount = 1\<rparr>,
           \<lparr>x = Some 1556672400000, y = None, y0 = None, amount = -2\<rparr>],
          [\<lparr>x = Some 1556683200000, y = None, y0 = None, amount = 3\<rparr>]]"
    unfolding ev by simp
  have "[\<lparr>x = Some 1556668800000, y = None, y0 = None, amount = 1\<rparr>,
         \<lparr>x = Some 1556672400000, y = None, y0 = None, amount = -2\<rparr>] \<in> set rs"
    unfolding rs by simp
  with 2 have
    "hourly (map x [\<lparr>x = Some 1556668800000, y = None, y0 = None, amount = 1\<rparr>,
                    \<lparr>x = Some 1556672400000, y = None, y0 = None, amount = -2\<rparr>]) \<and>
     sorted_wrt earlier (map x [\<lparr>x = Some 1556668800000, y = None, y0 = None, amount = 1\<rparr>,
                    \<lparr>x = Some 1556672400000, y = None, y0 = None, amount = -2\<rparr>])"
    by blast
  with ev show ?thesis by (rule conjI)
qed

text \<open>
  C2 as stated fails: the entries are not read in ascending order of time. Here the
  first area holds the later time and the second area the earlier one.
\<close>

theorem erreas_regions_counterexample:
  "erreasOf sampleDates [] []
      [(''2019-05-01T01:00:00Z'', 1), (''2019-05-01T00:00:00Z'', 2)]
   = Inr [[\<lparr>x = Some 1556672400000, y = None, y0 = None, amount = 1\<rparr>],
          [\<lparr>x = Some 1556668800000, y = None, y0 = None, amount = 2\<rparr>]] \<and>
   \<not> sorted_wrt earlier (map x (concat
        [[\<lparr>x = Some 1556672400000, y = None, y0 = None, amount = 1\<rparr>],
         [\<lparr>x = Some 1556668800000, y = None, y0 = None, amount = 2\<rparr>]]))"
  by (simp add: sampleDates_def hourBefore_def erreasOf_def erreaStep_def earlier_def)

section \<open>Legend clicks\<close>

lemma prefix_Day_append:
  "\<not> prefix ''-Day'' s \<Longrightarrow> s \<noteq> [] \<Longrightarrow> \<not> prefix ''-Day'' (s @ ''-Day'')"
  by (auto simp: prefix_append Cons_eq_append_conv prefix_Cons)

lemma splitHead_label:
  "\<not> str_includes d ''-Day'' \<Longrightarrow> splitHead (d @ ''-Day'') ''-Day'' = d"
proof (induction d)
  case Nil
  then show ?case by simp
next
  case (Cons c cs)
  then have np: "\<not> prefix ''-Day'' (c # cs)" and ni: "\<not> str_includes cs ''-Day''"
    by simp_all
  from np have "\<not> prefix ''-Day'' ((c # cs) @ ''-Day'')"
    by (rule prefix_Day_append) simp
  with Cons.IH ni show ?case by simp
qed

lemma prefix_Error_append:
  "prefix ''Error'' (s @ ''-Day'') \<Longrightarrow> prefix ''Error'' s"
  by (auto simp: prefix_append Cons_eq_append_conv prefix_Cons)

lemma includes_label_Error:
  "str_includes (d @ ''-Day'') ''Error'' = str_includes d ''Error''"
proof (induction d)
  case Nil
  show ?case by simp
next
  case (Cons c cs)
  have "prefix ''Error'' ((c # cs) @ ''-Day'') = prefix ''Error'' (c # cs)"
    using prefix_Error_append [of "c # cs"] by (auto simp: prefix_def)
  with Cons.IH show ?case by simp
qed


lemma str_includes_set: "str_includes s sub \<Longrightarrow> set sub \<subseteq> set s"
proof (induction s)
  case Nil
  then show ?case by simp
next
  case (Cons c cs)
  then show ?case using set_mono_prefix [of sub "c # cs"] by auto
qed

text \<open>The conditions on keys in the theorems below hold of every key that counts days.\<close>

lemma dayCount_plain:
  assumes "dayCount d"
  shows "d \<noteq> [] \<and> \<not> str_includes d ''-Day'' \<and> \<not> str_includes d ''Error''"
proof -
  from assms have ne: "d \<noteq> []"
    and dig: "\<forall>c\<in>set d. 48 \<le> (of_char c :: nat) \<and> (of_char c :: nat) \<le> 57"
    by (simp_all add: dayCount_def list_all_iff)
  have "CHR ''-'' \<notin> set d" using dig by auto
  then have a: "\<not> str_includes d ''-Day''" using str_includes_set [of d "''-Day''"] by auto
  have "CHR ''E'' \<notin> set d" using dig by auto
  then have b: "\<not> str_includes d ''Error''" using str_includes_set [of d "''Error''"] by auto
  from ne a b show ?thesis by simp
qed

lemma activeFcastDay_handleChange:
  "activeFcastDay (handleChange st v d) = (if v \<noteq> DFalse then v else activeFcastDay st)"
  by (simp add: handleChange_def split: option.splits)

lemma legendClick_day:
  "activeFcastDay (legendClick an st labelName) =
     (if toggleDisplayed an (activeFcastDay st) labelName \<noteq> DFalse
      then toggleDisplayed an (activeFcastDay st) labelName else activeFcastDay st)"
  by (simp add: legendClick_def activeFcastDay_handleChange)

lemma toggle_from_null:
  "d \<in> set (map fst (lead_days an)) \<Longrightarrow> \<not> str_includes d ''-Day'' \<Longrightarrow>
   \<not> str_includes d ''Error'' \<Longrightarrow> \<not> truthy a \<Longrightarrow>
   toggleDisplayed an a (d @ ''-Day'') = DKey d"
  by (simp add: toggleDisplayed_def splitHead_label includes_label_Error)

lemma toggle_own:
  "d \<noteq> [] \<Longrightarrow> \<not> str_includes d ''-Day'' \<Longrightarrow>
   toggleDisplayed an (DKey d) (d @ ''-Day'') = DNull"
  by (simp add: toggleDisplayed_def splitHead_label activeFcasts_def)

lemma toggle_Actual_isolated:
  "d \<noteq> [] \<Longrightarrow> toggleDisplayed an (DKey d) ''Actual'' = DNull"
  by (simp add: toggleDisplayed_def)

lemma toggle_other:
  "d \<noteq> [] \<Longrightarrow> other \<in> set (map fst (lead_days an)) \<Longrightarrow> other \<noteq> d \<Longrightarrow>
   \<not> str_includes other ''-Day'' \<Longrightarrow>
   toggleDisplayed an (DKey d) (other @ ''-Day'') = DKey other"
  by (simp add: toggleDisplayed_def splitHead_label activeFcasts_def)

lemma click_from_null:
  "d \<in> set (map fst (lead_days an)) \<Longrightarrow> \<not> str_includes d ''-Day'' \<Longrightarrow>
   \<not> str_includes d ''Error'' \<Longrightarrow> activeFcastDay s = DNull \<Longrightarrow>
   activeFcastDay (legendClick an s (d @ ''-Day'')) = DKey d"
  by (simp add: legendClick_day toggle_from_null)

lemma click_own:
  "d \<noteq> [] \<Longrightarrow> \<not> str_includes d ''-Day'' \<Longrightarrow> activeFcastDay s = DKey d \<Longrightarrow>
   activeFcastDay (legendClick an s (d @ ''-Day'')) = DNull"
  by (simp add: legendClick_day toggle_own)

text \<open>
  C4. Let \<open>d\<close> be a lead-day key of the payload: a non-empty key that contains neither
  \<^verbatim>\<open>-Day\<close> nor \<^verbatim>\<open>Error\<close>, as a key that counts days does. From a state whose active
  day is \<^verbatim>\<open>null\<close>, a click on the label of \<open>d\<close> makes \<open>d\<close> the active day, and a
  second click on the same label makes the active day \<^verbatim>\<open>null\<close> again; from the initial
  state the two clicks give the initial state back.
\<close>

theorem legend_toggle_roundtrip:
  assumes "d \<in> set (map fst (lead_days an))" and "d \<noteq> []"
    and "\<not> str_includes d ''-Day''" and "\<not> str_includes d ''Error''"
    and "activeFcastDay (st :: 'p chartState) = DNull"
  shows "activeFcastDay (legendClick an st (d @ ''-Day'')) = DKey d \<and>
         activeFcastDay (legendClick an (legendClick an st (d @ ''-Day'')) (d @ ''-Day''))
           = DNull \<and>
         legendClick an (legendClick an initialState (d @ ''-Day'')) (d @ ''-Day'')
           = (initialState :: 'p chartState)"
proof -
  have one: "activeFcastDay (legendClick an st (d @ ''-Day'')) = DKey d"
    using assms by (simp add: click_from_null)
  have two: "activeFcastDay (legendClick an (legendClick an st (d @ ''-Day'')) (d @ ''-Day''))
             = DNull"
    using assms(2,3) one by (rule click_own)
  have three: "legendClick an (legendClick an initialState (d @ ''-Day'')) (d @ ''-Day'')
        = initialState"
    using assms(1-4)
    by (simp add: legendClick_def handleChange_def initialState_def toggle_from_null toggle_own)
  from one two three show ?thesis by (intro conjI)
qed

theorem legend_toggle_roundtrip_witness:
  "''2'' \<in> set (map fst (lead_days sampleAnalysis)) \<and> ''2'' \<noteq> [] \<and>
   \<not> str_includes ''2'' ''-Day'' \<and> \<not> str_includes ''2'' ''Error'' \<and>
   activeFcastDay (initialState :: unit chartState) = DNull \<and>
   activeFcastDay (legendClick sampleAnalysis (initialState :: unit chartState) ''2-Day'')
     = DKey ''2'' \<and>
   legendClick sampleAnalysis
     (legendClick sampleAnalysis (initialState :: unit chartState) ''2-Day'') ''2-Day''
     = initialState"
  using legend_toggle_roundtrip [of "''2''" sampleAnalysis "initialState :: unit chartState"]
  by (simp add: sampleAnalysis_def initialState_def)

text \<open>
  C5. When the lead day \<open>d\<close> is active, a click on \<^verbatim>\<open>Actual\<close> or on the label of \<open>d\<close>
  makes the active day \<^verbatim>\<open>null\<close>, and a click on the label of another lead-day key of
  the payload makes that key the active day in this one step. Keys do not contain
  \<^verbatim>\<open>-Day\<close>.
\<close>

theorem legend_isolated_clicks:
  assumes "activeFcastDay st = DKey d" and "d \<noteq> []"
  shows "activeFcastDay (legendClick an st ''Actual'') = DNull \<and>
         (\<not> str_includes d ''-Day'' \<longrightarrow>
            activeFcastDay (legendClick an st (d @ ''-Day'')) = DNull) \<and>
         (other \<in> set (map fst (lead_days an)) \<and> other \<noteq> d \<and>
          \<not> str_includes other ''-Day'' \<longrightarrow>
            activeFcastDay (legendClick an st (other @ ''-Day'')) = DKey other)"
  using assms
  by (simp add: legendClick_day toggle_Actual_isolated toggle_own toggle_other)

theorem legend_isolated_clicks_witness:
  "activeFcastDay \<lparr>activeFcastDay = DKey ''1'', activeData = [] :: unit list\<rparr> = DKey ''1'' \<and>
   ''1'' \<noteq> [] \<and> \<not> str_includes ''1'' ''-Day'' \<and>
   ''3'' \<in> set (map fst (lead_days sampleAnalysis)) \<and> ''3'' \<noteq> ''1'' \<and>
   \<not> str_includes ''3'' ''-Day'' \<and>
   activeFcastDay (legendClick sampleAnalysis
      \<lparr>activeFcastDay = DKey ''1'', activeData = [] :: unit list\<rparr> ''Actual'') = DNull \<and>
   activeFcastDay (legendClick sampleAnalysis
      \<lparr>activeFcastDay = DKey ''1'', activeData = [] :: unit list\<rparr> ''1-Day'') = DNull \<and>
   activeFcastDay (legendClick sampleAnalysis
      \<lparr>activeFcastDay = DKey ''1'', activeData = [] :: unit list\<rparr> ''3-Day'') = DKey ''3''"
  using legend_isolated_clicks [of "\<lparr>activeFcastDay = DKey ''1'', activeData = [] :: unit list\<rparr>"
          "''1''" sampleAnalysis "''3''"]
  by (simp add: sampleAnalysis_def)

text \<open>
  C6. When the active day is \<^verbatim>\<open>null\<close>, a click on \<^verbatim>\<open>Error\<close> makes the first displayed
  lead-day key the active day, and a click on \<^verbatim>\<open>Actual\<close> leaves the active day
  \<^verbatim>\<open>null\<close> (no lead day is called \<^verbatim>\<open>Actual\<close>).
\<close>

theorem legend_cumulative_clicks:
  assumes "activeFcastDay st = DNull"
  shows "(activeFcasts an (activeFcastDay st) = k # ks \<longrightarrow>
            activeFcastDay (legendClick an st ''Error'') = DKey k) \<and>
         (''Actual'' \<notin> set (map fst (lead_days an)) \<longrightarrow>
            activeFcastDay (legendClick an st ''Actual'') = DNull)"
  using assms
  by (simp add: legendClick_day toggleDisplayed_def activeFcasts_def)

theorem legend_cumulative_clicks_witness:
  "activeFcastDay (initialState :: unit chartState) = DNull \<and>
   activeFcasts sampleAnalysis (activeFcastDay (initialState :: unit chartState))
     = ''1'' # [''2'', ''3''] \<and>
   ''Actual'' \<notin> set (map fst (lead_days sampleAnalysis)) \<and>
   activeFcastDay (legendClick sampleAnalysis (initialState :: unit chartState) ''Error'')
     = DKey ''1'' \<and>
   activeFcastDay (legendClick sampleAnalysis (initialState :: unit chartState) ''Actual'')
     = DNull"
  using legend_cumulative_clicks [of "initialState :: unit chartState" sampleAnalysis "''1''"
          "[''2'', ''3'']"]
  by (simp add: sampleAnalysis_def initialState_def activeFcasts_def)

text \<open>
  C7, as the code has it. A click leaves the active day as it was when the label is not
  \<^verbatim>\<open>Actual\<close>, does not contain \<^verbatim>\<open>Error\<close>, and its text before the first \<^verbatim>\<open>-Day\<close> is
  neither a lead-day key of the payload nor the active day. The click is a total
  function of the state: nothing is raised.
\<close>

theorem legend_unknown_label:
  assumes "\<not> str_includes labelName ''Error''" and "labelName \<noteq> ''Actual''"
    and "splitHead labelName ''-Day'' \<notin> set (map fst (lead_days an))"
    and "activeFcastDay st \<noteq> DKey (splitHead labelName ''-Day'')"
  shows "activeFcastDay (legendClick an st labelName) = activeFcastDay st"
proof -
  have "toggleDisplayed an (activeFcastDay st) labelName = DFalse"
    using assms by (cases "activeFcastDay st") (auto simp: toggleDisplayed_def activeFcasts_def Let_def)
  then show ?thesis by (simp add: legendClick_day)
qed

theorem legend_unknown_label_witness:
  "\<not> str_includes ''9-Day'' ''Error'' \<and> ''9-Day'' \<noteq> ''Actual'' \<and>
   splitHead ''9-Day'' ''-Day'' \<notin> set (map fst (lead_days sampleAnalysis)) \<and>
   activeFcastDay \<lparr>activeFcastDay = DKey ''1'', activeData = [] :: unit list\<rparr>
     \<noteq> DKey (splitHead ''9-Day'' ''-Day'') \<and>
   activeFcastDay (legendClick sampleAnalysis
      \<lparr>activeFcastDay = DKey ''1'', activeData = [] :: unit list\<rparr> ''9-Day'') = DKey ''1''"
  using legend_unknown_label [of "''9-Day''" sampleAnalysis
          "\<lparr>activeFcastDay = DKey ''1'', activeData = [] :: unit list\<rparr>"]
  by (simp add: sampleAnalysis_def)

text \<open>
  C7 as stated fails: \<^verbatim>\<open>2\<close> and \<^verbatim>\<open>Error-Area-0\<close> are not names of legend entries, yet
  a click with either label changes the active day.
\<close>

theorem legend_unknown_label_counterexample:
  "''2'' \<notin> set (legendNames sampleAnalysis) \<and>
   activeFcastDay (initialState :: unit chartState) = DNull \<and>
   activeFcastDay (legendClick sampleAnalysis (initialState :: unit chartState) ''2'')
     = DKey ''2'' \<and>
   ''Error-Area-0'' \<notin> set (legendNames sampleAnalysis) \<and>
   activeFcastDay (legendClick sampleAnalysis (initialState :: unit chartState)
      ''Error-Area-0'') = DKey ''1''"
  by (simp add: legendNames_def sampleAnalysis_def initialState_def legendClick_def
      handleChange_def toggleDisplayed_def activeFcasts_def)

section \<open>Statistics and hover\<close>

text \<open>
  C8. The statistics shown are \<^verbatim>\<open>cumulative_stats\<close> when the active day is \<^verbatim>\<open>null\<close> (or
  \<^verbatim>\<open>undefined\<close>), and the \<^verbatim>\<open>stats\<close> of the active lead day when a (non-empty) key of
  the payload is active; these are then not the cumulative ones unless the two are equal.
\<close>

theorem stats_selected:
  "ErrorStatsDisplay_stats an DNull = Inr (cumulative_stats an) \<and>
   ErrorStatsDisplay_stats an DUndefined = Inr (cumulative_stats an) \<and>
   (d \<noteq> [] \<and> map_of (lead_days an) d = Some ld \<longrightarrow>
      ErrorStatsDisplay_stats an (DKey d) = Inr (stats ld) \<and>
      (stats ld \<noteq> cumulative_stats an \<longrightarrow>
         ErrorStatsDisplay_stats an (DKey d) \<noteq> Inr (cumulative_stats an)))"
  by (simp add: ErrorStatsDisplay_stats_def)

theorem stats_selected_witness:
  "ErrorStatsDisplay_stats sampleAnalysis DNull = Inr ''cumulative'' \<and>
   ''2'' \<noteq> [] \<and>
   map_of (lead_days sampleAnalysis) ''2''
     = Some \<lparr>fcasts = [], errors = [], stats = ''stats of 2''\<rparr> \<and>
   ErrorStatsDisplay_stats sampleAnalysis (DKey ''2'') = Inr ''stats of 2'' \<and>
   ErrorStatsDisplay_stats sampleAnalysis (DKey ''2'') \<noteq> Inr (cumulative_stats sampleAnalysis)"
  using stats_selected [of sampleAnalysis "''2''" "\<lparr>fcasts = [], errors = [], stats = ''stats of 2''\<rparr>"]
  by (simp add: sampleAnalysis_def)

text \<open>
  C10. A hover activation calls the change handler with \<^verbatim>\<open>false\<close> and the points: the
  active day stays as it was and the hover data become exactly the new points. The
  change handler sets the active day only when the value passed is not \<^verbatim>\<open>false\<close>.
\<close>

theorem hover_keeps_active_day:
  "onActivated st points = handleChange st DFalse (Some points) \<and>
   activeFcastDay (onActivated st points) = activeFcastDay st \<and>
   activeData (onActivated st points) = points \<and>
   activeFcastDay (handleChange st newActiveDay newActiveData)
     = (if newActiveDay \<noteq> DFalse then newActiveDay else activeFcastDay st)"
  by (simp add: onActivated_def handleChange_def split: option.splits)

theorem hover_keeps_active_day_witness:
  "activeFcastDay (onActivated \<lparr>activeFcastDay = DKey ''2'', activeData = [1 :: nat]\<rparr> [5, 6])
     = DKey ''2'' \<and>
   activeData (onActivated \<lparr>activeFcastDay = DKey ''2'', activeData = [1 :: nat]\<rparr> [5, 6])
     = [5, 6] \<and>
   activeFcastDay (handleChange \<lparr>activeFcastDay = DKey ''2'', activeData = [1 :: nat]\<rparr>
      DNull (Some [])) = DNull"
  using hover_keeps_active_day
    [of "\<lparr>activeFcastDay = DKey ''2'', activeData = [1 :: nat]\<rparr>" "[5, 6]" DNull "Some []"]
  by (simp add: onActivated_def)

section \<open>Hover panel and labelled values\<close>

lemma activeStep_pair:
  "activeStep (acc, e) p =
     (if datum_y p = Null then (acc, e)
      else if \<not> str_includes (childName p) ''Error'' then
        (acc @ [\<lparr>label = childName p, value = datum_y p, valueType = None,
                   className = None\<rparr>], e)
      else (acc, Some \<lparr>label = ''Forecast Error'', value = datum_amount p,
                        valueType = None, className = Some ''text-danger''\<rparr>))"
  by (simp add: activeStep_def)

lemma foldl_activeStep:
  "foldl activeStep (acc, e) data =
     (acc @ map (\<lambda>p. \<lparr>label = childName p, value = datum_y p, valueType = None,
                        className = None\<rparr>)
               (filter (\<lambda>p. datum_y p \<noteq> Null \<and> \<not> str_includes (childName p) ''Error'') data),
      if filter (\<lambda>p. datum_y p \<noteq> Null \<and> str_includes (childName p) ''Error'') data = []
      then e
      else Some \<lparr>label = ''Forecast Error'',
                 value = datum_amount (last (filter (\<lambda>p. datum_y p \<noteq> Null \<and>
                            str_includes (childName p) ''Error'') data)),
                 valueType = None, className = Some ''text-danger''\<rparr>)"
proof (induction data arbitrary: acc e)
  case Nil
  show ?case by simp
next
  case (Cons p ps)
  show ?case
    by (simp add: Cons.IH activeStep_pair)
qed

text \<open>
  C3, as the code has it. A point whose value is \<^verbatim>\<open>null\<close> is dropped first, whatever its
  series. The panel shows the remaining points whose series name does not contain
  \<^verbatim>\<open>Error\<close>, in their order, and after them, exactly when a remaining point has a series
  name that contains \<^verbatim>\<open>Error\<close>, one \<^verbatim>\<open>Forecast Error\<close> entry with the amount of the
  last such point. So the points \<^verbatim>\<open>Error-Area-0\<close> (value 16.1, amount -2.3) and \<^verbatim>\<open>1-Day\<close>
  (value 18.4) are shown as \<^verbatim>\<open>1-Day\<close>, 18.4 degrees, then \<^verbatim>\<open>Forecast Error\<close>, -2.3
  degrees, in either order of the input.
\<close>

theorem active_display_order:
  "ActiveDataDisplay data =
     (if data = [] then None
      else Some
        (map (\<lambda>p. \<lparr>label = childName p, value = datum_y p, valueType = None,
                     className = None\<rparr>)
             (filter (\<lambda>p. datum_y p \<noteq> Null \<and> \<not> str_includes (childName p) ''Error'') data)
         @ (if filter (\<lambda>p. datum_y p \<noteq> Null \<and> str_includes (childName p) ''Error'') data = []
            then []
            else [\<lparr>label = ''Forecast Error'',
                   value = datum_amount (last (filter (\<lambda>p. datum_y p \<noteq> Null \<and>
                              str_includes (childName p) ''Error'') data)),
                   valueType = None, className = Some ''text-danger''\<rparr>]))) \<and>
   map_option (map LabeledValue) (ActiveDataDisplay
      [\<lparr>childName = ''Error-Area-0'', datum_y = Num (161 / 10), datum_amount = Num (- 23 / 10)\<rparr>,
       \<lparr>childName = ''1-Day'', datum_y = Num (184 / 10), datum_amount = Undefined\<rparr>])
     = Some [(''1-Day'', [CHR ''1'', CHR ''8'', CHR ''.'', CHR ''4'', CHR 0xB0, CHR ''C'']),
             (''Forecast Error'',
              [CHR ''-'', CHR ''2'', CHR ''.'', CHR ''3'', CHR 0xB0, CHR ''C''])] \<and>
   map_option (map LabeledValue) (ActiveDataDisplay
      [\<lparr>childName = ''1-Day'', datum_y = Num (184 / 10), datum_amount = Undefined\<rparr>,
       \<lparr>childName = ''Error-Area-0'', datum_y = Num (161 / 10), datum_amount = Num (- 23 / 10)\<rparr>])
     = Some [(''1-Day'', [CHR ''1'', CHR ''8'', CHR ''.'', CHR ''4'', CHR 0xB0, CHR ''C'']),
             (''Forecast Error'',
              [CHR ''-'', CHR ''2'', CHR ''.'', CHR ''3'', CHR 0xB0, CHR ''C''])]"
proof (intro conjI)
  show "ActiveDataDisplay data =
     (if data = [] then None
      else Some
        (map (\<lambda>p. \<lparr>label = childName p, value = datum_y p, valueType = None,
                     className = None\<rparr>)
             (filter (\<lambda>p. datum_y p \<noteq> Null \<and> \<not> str_includes (childName p) ''Error'') data)
         @ (if filter (\<lambda>p. datum_y p \<noteq> Null \<and> str_includes (childName p) ''Error'') data = []
            then []
            else [\<lparr>label = ''Forecast Error'',
                   value = datum_amount (last (filter (\<lambda>p. datum_y p \<noteq> Null \<and>
                              str_includes (childName p) ''Error'') data)),
                   valueType = None, className = Some ''text-danger''\<rparr>])))"
    by (simp add: ActiveDataDisplay_def foldl_activeStep Let_def)
next
  show "map_option (map LabeledValue) (ActiveDataDisplay
      [\<lparr>childName = ''Error-Area-0'', datum_y = Num (161 / 10), datum_amount = Num (- 23 / 10)\<rparr>,
       \<lparr>childName = ''1-Day'', datum_y = Num (184 / 10), datum_amount = Undefined\<rparr>])
     = Some [(''1-Day'', [CHR ''1'', CHR ''8'', CHR ''.'', CHR ''4'', CHR 0xB0, CHR ''C'']),
             (''Forecast Error'',
              [CHR ''-'', CHR ''2'', CHR ''.'', CHR ''3'', CHR 0xB0, CHR ''C''])]"
    by code_simp
next
  show "map_option (map LabeledValue) (ActiveDataDisplay
      [\<lparr>childName = ''1-Day'', datum_y = Num (184 / 10), datum_amount = Undefined\<rparr>,
       \<lparr>childName = ''Error-Area-0'', datum_y = Num (161 / 10), datum_amount = Num (- 23 / 10)\<rparr>])
     = Some [(''1-Day'', [CHR ''1'', CHR ''8'', CHR ''.'', CHR ''4'', CHR 0xB0, CHR ''C'']),
             (''Forecast Error'',
              [CHR ''-'', CHR ''2'', CHR ''.'', CHR ''3'', CHR 0xB0, CHR ''C''])]"
    by code_simp
qed

theorem active_display_order_witness:
  "ActiveDataDisplay
     [\<lparr>childName = ''Error-Area-0'', datum_y = Num 16, datum_amount = Num (- 1)\<rparr>,
      \<lparr>childName = ''1-Day'', datum_y = Num (184 / 10), datum_amount = Undefined\<rparr>,
      \<lparr>childName = ''2-Day'', datum_y = Null, datum_amount = Undefined\<rparr>,
      \<lparr>childName = ''Error-Area-1'', datum_y = Num 17, datum_amount = Num (- 23 / 10)\<rparr>]
   = Some [\<lparr>label = ''1-Day'', value = Num (184 / 10), valueType = None, className = None\<rparr>,
           \<lparr>label = ''Forecast Error'', value = Num (- 23 / 10), valueType = None,
              className = Some ''text-danger''\<rparr>]"
proof -
  from active_display_order
    [of "[\<lparr>childName = ''Error-Area-0'', datum_y = Num 16, datum_amount = Num (- 1)\<rparr>,
          \<lparr>childName = ''1-Day'', datum_y = Num (184 / 10), datum_amount = Undefined\<rparr>,
          \<lparr>childName = ''2-Day'', datum_y = Null, datum_amount = Undefined\<rparr>,
          \<lparr>childName = ''Error-Area-1'', datum_y = Num 17, datum_amount = Num (- 23 / 10)\<rparr>]",
     THEN conjunct1]
  show ?thesis by simp
qed

text \<open>
  C3 as stated fails: in the input of the claim the error point has the value \<^verbatim>\<open>null\<close>,
  so it is dropped and no \<^verbatim>\<open>Forecast Error\<close> entry is shown.
\<close>

theorem active_display_order_counterexample:
  "map_option (map LabeledValue) (ActiveDataDisplay
      [\<lparr>childName = ''Error-Area-0'', datum_y = Null, datum_amount = Num (- 23 / 10)\<rparr>,
       \<lparr>childName = ''1-Day'', datum_y = Num (184 / 10), datum_amount = Undefined\<rparr>])
   = Some [(''1-Day'', [CHR ''1'', CHR ''8'', CHR ''.'', CHR ''4'', CHR 0xB0, CHR ''C''])]"
  by code_simp





end
